theory Spec2Isabelle
  imports Complex_Main "HOL-Library.AList"
begin

section \<open>Python values used by the pipelines\<close>

text \<open>
  The two modules \<^verbatim>\<open>debandshit/debanders.py\<close> and \<^verbatim>\<open>vsdeband/funcs.py\<close> only build
  a filter graph: every line either prepares an argument or calls something that lives
  outside these two files (a VapourSynth plugin, a helper of vstools / vsrgtools /
  vskernels / vsmask, or a class of the package whose module is not among the two files).
  The model keeps the arguments as Python has them and records every such call.

  Float literals (\<^verbatim>\<open>0.6\<close>, \<^verbatim>\<open>1.5 / 255\<close>) are carried as the exact rational they
  denote; the two files do no arithmetic on them beyond the divisions written out below.
\<close>

datatype val = VNone | VBool bool | VInt int | VFloat rat | VStr string | VList "val list"

type_synonym kwargs = "(string \<times> val) list"

text \<open>\<^verbatim>\<open>d |= other\<close> on dictionaries: keys of \<open>other\<close> replace or extend those of \<open>d\<close>.\<close>

definition dict_update :: "kwargs \<Rightarrow> kwargs \<Rightarrow> kwargs" where
  "dict_update d other = fold (\<lambda>(k, v). AList.update k v) other d"

text \<open>An argument annotated \<^verbatim>\<open>T | list[T]\<close>.\<close>

datatype 'a one_or_many = One 'a | Many "'a list"

text \<open>\<^verbatim>\<open>vstools.to_arr\<close>: a scalar becomes a one-element list, a list stays.\<close>

fun to_arr :: "'a one_or_many \<Rightarrow> 'a list" where
  "to_arr (One x) = [x]"
| "to_arr (Many xs) = xs"

text \<open>Truth value of \<^verbatim>\<open>if x:\<close> for a number or a list.\<close>

fun truthy :: "('a::zero) one_or_many \<Rightarrow> bool" where
  "truthy (One x) = (x \<noteq> 0)"
| "truthy (Many xs) = (xs \<noteq> [])"

text \<open>
  Python's \<^verbatim>\<open>round\<close> on a float: to the nearest integer, ties to the even one. The
  argument here is always a quotient of two integers, taken exactly; the float quotient
  rounds to the same integer as long as the operands stay below \<open>2 ^ 52\<close>.
\<close>

definition py_round :: "rat \<Rightarrow> int" where
  "py_round x =
     (let f = \<lfloor>x\<rfloor>; d = x - of_int f
      in if d < 1 / 2 then f
         else if 1 / 2 < d then f + 1
         else if even f then f else f + 1)"

text \<open>\<^verbatim>\<open>int(x)\<close> on a float truncates towards zero.\<close>

definition py_int :: "rat \<Rightarrow> int" where
  "py_int x = (if 0 \<le> x then \<lfloor>x\<rfloor> else \<lceil>x\<rceil>)"

section \<open>Exceptions\<close>

datatype exc_class =
    ValueError | TypeError | AttributeError | IndexError | ZeroDivisionError
  | VariableFormatError | PluginError | KeyboardInterrupt | SystemExit

datatype error = Raise exc_class string

text \<open>
  \<^verbatim>\<open>isinstance(e, Exception)\<close>: what an \<^verbatim>\<open>except Exception:\<close> clause catches.
  \<^verbatim>\<open>KeyboardInterrupt\<close> and \<^verbatim>\<open>SystemExit\<close> derive from \<^verbatim>\<open>BaseException\<close> only.
\<close>

fun is_Exception :: "error \<Rightarrow> bool" where
  "is_Exception (Raise c m) = (c \<noteq> KeyboardInterrupt \<and> c \<noteq> SystemExit)"

definition variable_format_msg :: "string \<Rightarrow> string" where
  "variable_format_msg f =
     f @ '': '' @ [CHR 0x27] @ ''Variable-format clips not supported'' @ [CHR 0x27]"

section \<open>Clips\<close>

datatype sample_type = INTEGER | FLOAT

record video_format =
  bits_per_sample :: nat
  sample_type :: sample_type
  subsampling_w :: nat
  subsampling_h :: nat
  num_planes :: nat

text \<open>
  A clip is a node of the filter graph: the attributes the two files read
  (\<^verbatim>\<open>format\<close>, which is \<^verbatim>\<open>None\<close> for a variable-format clip, \<^verbatim>\<open>width\<close>,
  \<^verbatim>\<open>height\<close>) and the description of how the node was built.
\<close>

datatype node = Source nat | Filter string "node list"

record clip =
  format :: "video_format option"
  width :: int
  height :: int
  node :: node

section \<open>Debander objects\<close>

text \<open>
  Modelled from the spec: the class \<^verbatim>\<open>F3kdb\<close> (module \<^verbatim>\<open>.f3kdb\<close>, not among the two
  files) is a Debander that "holds default parameters and exposes the two-operation
  capability" \<^verbatim>\<open>deband\<close> / \<^verbatim>\<open>grain\<close>. An instance is the record of the constructor
  arguments it was built from (\<open>None\<close>: the argument was left to the class default),
  together with the three attributes \<^verbatim>\<open>thy\<close>, \<^verbatim>\<open>thcb\<close>, \<^verbatim>\<open>thcr\<close> that
  \<^verbatim>\<open>f3kbilateral\<close> reads and overwrites. How the constructor derives these three
  per-plane thresholds from its \<^verbatim>\<open>threshold\<close> argument is a parameter \<open>split\<close>.
\<close>

record f3kdb =
  f3_radius :: "int option"
  thy :: int
  thcb :: int
  thcr :: int
  f3_grain :: "int one_or_many option"
  f3_sample_mode :: "int option"
  f3_use_neo :: "bool option"
  f3_kwargs :: kwargs

type_synonym th_split = "int one_or_many option \<Rightarrow> int \<times> int \<times> int"

text \<open>
  A call \<^verbatim>\<open>F3kdb(radius, threshold, grain, ..., **kw)\<close>. Python refuses the call with a
  \<^verbatim>\<open>TypeError\<close> when \<open>kw\<close> repeats a parameter that is also passed explicitly.
\<close>

definition passed_names :: "(string \<times> bool) list \<Rightarrow> string list" where
  "passed_names ps = map fst (filter snd ps)"

definition F3kdb ::
  "th_split \<Rightarrow> int option \<Rightarrow> int one_or_many option \<Rightarrow> int one_or_many option \<Rightarrow>
   int option \<Rightarrow> bool option \<Rightarrow> kwargs \<Rightarrow> error + f3kdb" where
  "F3kdb split radius threshold grain sample_mode use_neo kw =
     (if list_ex (\<lambda>k. k \<in> set (map fst kw))
           (passed_names [(''radius'', radius \<noteq> None), (''threshold'', threshold \<noteq> None),
              (''grain'', grain \<noteq> None), (''sample_mode'', sample_mode \<noteq> None),
              (''use_neo'', use_neo \<noteq> None)])
      then Inl (Raise TypeError ''F3kdb() got multiple values for an argument'')
      else Inr \<lparr>f3_radius = radius,
                thy = fst (split threshold),
                thcb = fst (snd (split threshold)),
                thcr = snd (snd (split threshold)),
                f3_grain = grain, f3_sample_mode = sample_mode, f3_use_neo = use_neo,
                f3_kwargs = kw\<rparr>)"

text \<open>
  Modelled from the spec: the class \<^verbatim>\<open>Placebo\<close> (module \<^verbatim>\<open>.placebo\<close>), the second
  Debander; an instance is the record of its constructor arguments.
\<close>

record placebo =
  pl_radius :: rat
  pl_threshold :: "rat one_or_many"
  pl_iterations :: int
  pl_grain :: "rat one_or_many"
  pl_kwargs :: kwargs

definition Placebo ::
  "rat \<Rightarrow> rat one_or_many \<Rightarrow> int \<Rightarrow> rat one_or_many \<Rightarrow> kwargs \<Rightarrow> error + placebo" where
  "Placebo radius threshold iterations grain kw =
     (if list_ex (\<lambda>k. k \<in> set (map fst kw))
           [''radius'', ''threshold'', ''iterations'', ''grain'']
      then Inl (Raise TypeError ''Placebo() got multiple values for an argument'')
      else Inr \<lparr>pl_radius = radius, pl_threshold = threshold, pl_iterations = iterations,
                pl_grain = grain, pl_kwargs = kw\<rparr>)"

text \<open>
  Modelled from the spec: the abstract class \<^verbatim>\<open>Debander\<close> (module \<^verbatim>\<open>.abstract\<close>) of
  \<^verbatim>\<open>vsdeband\<close>. The pipelines take \<^verbatim>\<open>type[Debander] | Debander\<close> and instantiate a
  class with no arguments; an instance is its class name and the arguments it holds.
\<close>

record debander =
  db_class :: string
  db_config :: kwargs

datatype debander_arg = DebanderType string | DebanderInstance debander

text \<open>\<^verbatim>\<open>if not isinstance(debander, Debander): debander = debander()\<close>\<close>

fun ensure_debander :: "debander_arg \<Rightarrow> debander" where
  "ensure_debander (DebanderType c) = \<lparr>db_class = c, db_config = []\<rparr>"
| "ensure_debander (DebanderInstance d) = d"

text \<open>What a call site passes where a clip is expected: a clip, or a function object.\<close>

datatype pyarg = ClipArg clip | FuncArg string

section \<open>Calls that leave the two files\<close>

text \<open>
  One constructor per call site shape, with the arguments as they are passed.
  \<open>Depth\<close> is \<^verbatim>\<open>vstools.depth\<close>, \<open>LimitFilter\<close> is \<^verbatim>\<open>vsrgtools.limit_filter\<close>,
  \<open>Convolution\<close>, \<open>MakeDiff\<close>, \<open>MergeDiff\<close>, \<open>Binarize\<close>, \<open>MaskedMerge\<close> are \<^verbatim>\<open>core.std\<close>,
  \<open>ResizeSpline64\<close> is \<^verbatim>\<open>core.resize.Spline64\<close>; the \<open>F3kdb\<close>, \<open>Placebo\<close> and \<open>Debander\<close>
  constructors are method calls on the objects above; \<open>Prefilter\<close> is a call of the
  caller's prefilter function; \<open>ScalerScale\<close> and \<open>ScalerSpline64\<close> are the method
  \<^verbatim>\<open>scale\<close> and the attribute \<^verbatim>\<open>Spline64\<close> of a vskernels scaler object, named by its
  class.
\<close>

datatype call =
    Depth clip nat
  | Convolution clip "int list" "int option"
  | MakeDiff clip clip
  | MergeDiff clip clip
  | ResizeSpline64 clip int int
  | LimitFilter "clip list" kwargs
  | F3kdbDeband f3kdb clip
  | F3kdbGrain f3kdb clip
  | PlaceboDeband placebo clip
  | DebanderDeband debander pyarg int "int one_or_many" "int one_or_many"
  | DebanderGrain debander clip "int one_or_many"
  | Prefilter clip kwargs
  | ScalerScale string clip int int
  | ScalerSpline64 string clip int int
  | GuidedFilter clip val val rat string "int list" kwargs
  | Expand clip int
  | Inpand clip int
  | NormExpr "clip list" string "int list"
  | Binarize clip "rat list" "int list"
  | RemoveGrain clip string
  | MaskedMerge clip clip clip "int list"

text \<open>
  The host answers every call with a clip or with the exception the callee raises.
  The pipelines are stated for an arbitrary host.
\<close>

type_synonym host = "call \<Rightarrow> error + clip"

text \<open>
  A pipeline step: it receives the calls made so far and returns its outcome together
  with the extended record of calls.
\<close>

type_synonym 'a action = "call list \<Rightarrow> (error + 'a) \<times> call list"

definition ret :: "'a \<Rightarrow> 'a action" where
  "ret x = (\<lambda>l. (Inr x, l))"

definition raise :: "error \<Rightarrow> 'a action" where
  "raise e = (\<lambda>l. (Inl e, l))"

definition lift :: "error + 'a \<Rightarrow> 'a action" where
  "lift r = (\<lambda>l. (r, l))"

definition bnd :: "'a action \<Rightarrow> ('a \<Rightarrow> 'b action) \<Rightarrow> 'b action" where
  "bnd m f = (\<lambda>l. case m l of (Inl e, l') \<Rightarrow> (Inl e, l') | (Inr x, l') \<Rightarrow> f x l')"

definition invoke :: "host \<Rightarrow> call \<Rightarrow> clip action" where
  "invoke host c = (\<lambda>l. (host c, l @ [c]))"

text \<open>\<^verbatim>\<open>try: m  except Exception: h\<close>\<close>

definition try_except :: "'a action \<Rightarrow> 'a action \<Rightarrow> 'a action" where
  "try_except m h =
     (\<lambda>l. case m l of
            (Inl e, l') \<Rightarrow> if is_Exception e then h l' else (Inl e, l')
          | (Inr x, l') \<Rightarrow> (Inr x, l'))"

section \<open>debandshit/debanders.py\<close>

text \<open>\<^verbatim>\<open>F3kdb(radius, threshold, grain, sample_mode, use_neo, **kwargs).deband(clip)\<close>\<close>

definition dumb3kdb ::
  "host \<Rightarrow> th_split \<Rightarrow> clip \<Rightarrow> int \<Rightarrow> int one_or_many \<Rightarrow> int one_or_many \<Rightarrow> int \<Rightarrow> bool \<Rightarrow>
   kwargs \<Rightarrow> clip action" where
  "dumb3kdb host split clip radius threshold grain sample_mode use_neo kw =
     bnd (lift (F3kdb split (Some radius) (Some threshold) (Some grain) (Some sample_mode)
                  (Some use_neo) kw))
       (\<lambda>db. invoke host (F3kdbDeband db clip))"

text \<open>
  The three radii of the multi-stage pipelines (lines 62-64 of \<^verbatim>\<open>debanders.py\<close>, line 65
  of \<^verbatim>\<open>funcs.py\<close>): \<^verbatim>\<open>round(radius * 4 / 3), round(radius * 2 / 3), round(radius / 3)\<close>.
\<close>

definition stage_radii :: "int \<Rightarrow> int \<times> int \<times> int" where
  "stage_radii radius =
     (py_round (of_int (radius * 4) / 3),
      py_round (of_int (radius * 2) / 3),
      py_round (of_int radius / 3))"

text \<open>
  Line 71: \<^verbatim>\<open>db1.thy, db1.thcb, db1.thcr = [max(1, th // 2) for th in (...)]\<close>.
\<close>

definition halve_thresholds :: "f3kdb \<Rightarrow> f3kdb" where
  "halve_thresholds db =
     db\<lparr>thy := max 1 (thy db div 2), thcb := max 1 (thcb db div 2),
        thcr := max 1 (thcr db div 2)\<rparr>"

definition f3kbilateral ::
  "host \<Rightarrow> th_split \<Rightarrow> clip \<Rightarrow> int \<Rightarrow> int one_or_many \<Rightarrow> int one_or_many \<Rightarrow>
   kwargs option \<Rightarrow> kwargs option \<Rightarrow> clip action" where
  "f3kbilateral host split clip radius threshold grain f3kdb_args limflt_args =
     (case format clip of
        None \<Rightarrow> raise (Raise ValueError (variable_format_msg ''f3kbilateral''))
      | Some fmt \<Rightarrow>
          let bits = bits_per_sample fmt;
              f3_args = (case f3kdb_args of None \<Rightarrow> [] | Some a \<Rightarrow> dict_update [] a);
              lf0 = [(''thr'', VFloat (6 / 10)), (''elast'', VFloat 3), (''thrc'', VNone)];
              lf_args = (case limflt_args of None \<Rightarrow> lf0 | Some a \<Rightarrow> dict_update lf0 a);
              rad1 = fst (stage_radii radius);
              rad2 = fst (snd (stage_radii radius));
              rad3 = snd (snd (stage_radii radius))
          in
          bnd (lift (F3kdb split (Some rad1) (Some threshold) (Some (One 0)) None None f3_args))
            (\<lambda>db1.
          bnd (lift (F3kdb split (Some rad2) (Some threshold) (Some (One 0)) None None f3_args))
            (\<lambda>db2.
          bnd (lift (F3kdb split (Some rad3) (Some threshold) (Some (One 0)) None None f3_args))
            (\<lambda>db3.
          bnd (invoke host (Depth clip 16)) (\<lambda>clip16.
          bnd (invoke host (F3kdbDeband (halve_thresholds db1) clip16)) (\<lambda>flt1.
          bnd (invoke host (F3kdbDeband db2 flt1)) (\<lambda>flt2.
          bnd (invoke host (F3kdbDeband db3 flt2)) (\<lambda>flt3.
          bnd (invoke host (LimitFilter [flt3, flt2, clip16] lf_args)) (\<lambda>limit.
          bnd (if truthy grain
               then bnd (lift (F3kdb split None None (Some grain) None None f3_args))
                      (\<lambda>gdb. invoke host (F3kdbGrain gdb limit))
               else ret limit) (\<lambda>grained.
          invoke host (Depth grained bits)))))))))))"

definition f3kpf ::
  "host \<Rightarrow> th_split \<Rightarrow> clip \<Rightarrow> int \<Rightarrow> int one_or_many \<Rightarrow> int one_or_many \<Rightarrow>
   kwargs option \<Rightarrow> kwargs option \<Rightarrow> clip action" where
  "f3kpf host split clip radius threshold grain f3kdb_args limflt_args =
     (case format clip of
        None \<Rightarrow> raise (Raise ValueError (variable_format_msg ''f3kpf''))
      | Some fmt \<Rightarrow>
          let f3_args = (case f3kdb_args of None \<Rightarrow> [] | Some a \<Rightarrow> dict_update [] a);
              lf0 = [(''thr'', VFloat (3 / 10)), (''elast'', VFloat (25 / 10)), (''thrc'', VNone)];
              lf_args = (case limflt_args of None \<Rightarrow> lf0 | Some a \<Rightarrow> dict_update lf0 a)
          in
          bnd (invoke host (Convolution clip [1, 2, 1, 2, 4, 2, 1, 2, 1] None)) (\<lambda>conv.
          bnd (invoke host (Convolution conv (replicate 9 1) (Some 0))) (\<lambda>blur.
          bnd (invoke host (MakeDiff clip blur)) (\<lambda>diff.
          bnd (lift (F3kdb split (Some radius) (Some threshold) (Some grain) None None f3_args))
            (\<lambda>db.
          bnd (invoke host (F3kdbDeband db blur)) (\<lambda>deband.
          bnd (invoke host (LimitFilter [deband, blur] lf_args)) (\<lambda>deband'.
          invoke host (MergeDiff deband' diff))))))))"

text \<open>
  \<^verbatim>\<open>lfdeband\<close> of \<^verbatim>\<open>debandshit/debanders.py\<close> (the name is also used in
  \<^verbatim>\<open>vsdeband/funcs.py\<close>, modelled below as \<open>vs_lfdeband\<close>).
\<close>

definition lfdeband ::
  "host \<Rightarrow> th_split \<Rightarrow> clip \<Rightarrow> int \<Rightarrow> int one_or_many \<Rightarrow> int one_or_many \<Rightarrow> kwargs \<Rightarrow>
   clip action" where
  "lfdeband host split clip radius threshold grain f3kdb_args =
     (case format clip of
        None \<Rightarrow> raise (Raise ValueError (variable_format_msg ''lfdeband''))
      | Some fmt \<Rightarrow>
          let bits = bits_per_sample fmt;
              wss = (2::int) ^ subsampling_w fmt;
              hss = (2::int) ^ subsampling_h fmt;
              w = width clip;
              h = height clip;
              dw = py_round (of_int w / 2);
              dh = py_round (of_int h / 2)
          in
          bnd (invoke host (Depth clip 16)) (\<lambda>clip16.
          bnd (invoke host (ResizeSpline64 clip16 (dw - dw mod wss) (dh - dh mod hss))) (\<lambda>dsc.
          bnd (lift (F3kdb split (Some radius) (Some threshold) (Some grain) None None
                       f3kdb_args)) (\<lambda>db.
          bnd (invoke host (F3kdbDeband db dsc)) (\<lambda>d3kdb.
          bnd (invoke host (MakeDiff d3kdb dsc)) (\<lambda>ddif.
          bnd (invoke host (ResizeSpline64 ddif w h)) (\<lambda>dif.
          bnd (invoke host (MergeDiff clip16 dif)) (\<lambda>out.
          invoke host (Depth out bits)))))))))"

text \<open>\<^verbatim>\<open>Placebo(radius, threshold, iterations, grain, **kwargs).deband(clip)\<close>\<close>

definition placebo_deband ::
  "host \<Rightarrow> clip \<Rightarrow> rat \<Rightarrow> rat one_or_many \<Rightarrow> int \<Rightarrow> rat one_or_many \<Rightarrow> kwargs \<Rightarrow>
   clip action" where
  "placebo_deband host clip radius threshold iterations grain kw =
     bnd (lift (Placebo radius threshold iterations grain kw))
       (\<lambda>p. invoke host (PlaceboDeband p clip))"

section \<open>vsdeband/funcs.py\<close>

text \<open>
  \<^verbatim>\<open>vstools.check_variable(clip, func)\<close>, as the spec describes it: it fails with a
  format error when the clip's format is variable and returns otherwise; the pipelines
  use it as \<^verbatim>\<open>assert check_variable(clip, func)\<close>. The model hands the now known format
  to the rest of the pipeline.
\<close>

definition check_variable :: "clip \<Rightarrow> string \<Rightarrow> video_format action" where
  "check_variable clip func =
     (case format clip of
        None \<Rightarrow> raise (Raise VariableFormatError func)
      | Some fmt \<Rightarrow> ret fmt)"

text \<open>
  \<^verbatim>\<open>vstools.expect_bits(clip, 16)\<close>: the clip converted to the expected depth (a
  \<open>Depth\<close> call) together with the bit depth it had.
\<close>

definition expect_bits :: "host \<Rightarrow> clip \<Rightarrow> nat \<Rightarrow> (clip \<times> nat) action" where
  "expect_bits host clip expected =
     (case format clip of
        None \<Rightarrow> raise (Raise VariableFormatError ''expect_bits'')
      | Some fmt \<Rightarrow>
          bnd (invoke host (Depth clip expected)) (\<lambda>c. ret (c, bits_per_sample fmt)))"

text \<open>\<^verbatim>\<open>vstools.normalize_seq(val, length)\<close>: pad with the last element, cut to length.\<close>

definition normalize_seq :: "'a one_or_many \<Rightarrow> nat \<Rightarrow> error + 'a list" where
  "normalize_seq v n =
     (let xs = to_arr v
      in if xs = [] then Inl (Raise IndexError ''list index out of range'')
         else Inr (take n (xs @ replicate (n - length xs) (last xs))))"

text \<open>The keyword arguments \<^verbatim>\<open>thr=lthr, elast=elast, bright_thr=bright_thr\<close>.\<close>

definition limit_kwargs :: "val \<Rightarrow> rat \<Rightarrow> int option \<Rightarrow> kwargs" where
  "limit_kwargs lthr elast bright_thr =
     [(''thr'', lthr), (''elast'', VFloat elast),
      (''bright_thr'', case bright_thr of None \<Rightarrow> VNone | Some b \<Rightarrow> VInt b)]"

definition mdb_bilateral ::
  "host \<Rightarrow> clip \<Rightarrow> int \<Rightarrow> int one_or_many \<Rightarrow> int one_or_many \<Rightarrow> val \<Rightarrow> rat \<Rightarrow> int option \<Rightarrow>
   debander_arg \<Rightarrow> clip action" where
  "mdb_bilateral host clip radius thr grains lthr elast bright_thr debander =
     bnd (check_variable clip ''mdb_bilateral'') (\<lambda>fmt.
     let db = ensure_debander debander
     in
     bnd (expect_bits host clip 16) (\<lambda>(clip16, bits).
     let rad1 = fst (stage_radii radius);
         rad2 = fst (snd (stage_radii radius));
         rad3 = snd (snd (stage_radii radius))
     in
     bnd (invoke host (DebanderDeband db (ClipArg clip16) rad1
            (Many (map (\<lambda>th. max 1 (th div 2)) (to_arr thr))) (One 0))) (\<lambda>db1.
     bnd (invoke host (DebanderDeband db (ClipArg db1) rad2 thr (One 0))) (\<lambda>db2.
     bnd (invoke host (DebanderDeband db (ClipArg db2) rad3 thr (One 0))) (\<lambda>db3.
     bnd (invoke host (LimitFilter [db3, db2, clip16] (limit_kwargs lthr elast bright_thr)))
       (\<lambda>limit.
     bnd (if truthy grains then invoke host (DebanderGrain db limit grains) else ret limit)
       (\<lambda>limit'.
     invoke host (Depth limit' bits))))))))"

text \<open>
  A call of the caller's prefilter, \<^verbatim>\<open>prefilter(clip, planes=0, **kwargs)\<close> when
  \<open>planes\<close> is given and \<^verbatim>\<open>prefilter(clip, **kwargs)\<close> otherwise. With \<open>planes\<close> given and
  a second \<^verbatim>\<open>planes\<close> among \<open>kwargs\<close>, Python raises \<^verbatim>\<open>TypeError\<close> at the call site and the
  function is not entered.
\<close>

definition call_prefilter ::
  "(clip \<Rightarrow> kwargs \<Rightarrow> error + clip) \<Rightarrow> clip \<Rightarrow> val option \<Rightarrow> kwargs \<Rightarrow> clip action" where
  "call_prefilter prefilter clip planes kw =
     (case planes of
        Some p \<Rightarrow>
          if ''planes'' \<in> set (map fst kw)
          then raise (Raise TypeError ''got multiple values for keyword argument planes'')
          else (\<lambda>l. (prefilter clip ((''planes'', p) # kw),
                      l @ [Prefilter clip ((''planes'', p) # kw)]))
      | None \<Rightarrow> (\<lambda>l. (prefilter clip kw, l @ [Prefilter clip kw])))"

definition pfdeband ::
  "host \<Rightarrow> (clip \<Rightarrow> kwargs \<Rightarrow> error + clip) \<Rightarrow> clip \<Rightarrow> int \<Rightarrow> int one_or_many \<Rightarrow>
   int one_or_many \<Rightarrow> val \<Rightarrow> rat \<Rightarrow> int option \<Rightarrow> debander_arg \<Rightarrow> kwargs \<Rightarrow> clip action" where
  "pfdeband host prefilter clip radius thr grains lthr elast bright_thr debander kw =
     bnd (check_variable clip ''pfdeband'') (\<lambda>fmt.
     let db = ensure_debander debander
     in
     bnd (try_except (call_prefilter prefilter clip (Some (VInt 0)) kw)
            (call_prefilter prefilter clip None kw)) (\<lambda>blur.
     bnd (invoke host (MakeDiff clip blur)) (\<lambda>diff.
     bnd (invoke host (DebanderDeband db (ClipArg blur) radius thr grains)) (\<lambda>deband.
     bnd (invoke host (LimitFilter [deband, blur] (limit_kwargs lthr elast bright_thr)))
       (\<lambda>limit.
     invoke host (MergeDiff limit diff))))))"

text \<open>
  \<^verbatim>\<open>lfdeband\<close> of \<^verbatim>\<open>vsdeband/funcs.py\<close>. A scaler object is named by its class;
  \<^verbatim>\<open>scaler.ensure_obj(upscaler, lfdeband)\<close> takes the scaler's own class when \<open>upscaler\<close>
  is \<^verbatim>\<open>None\<close>. Line 165 passes the name \<^verbatim>\<open>blur\<close>, which in this module is the function
  imported from vsrgtools, and line 169 calls the attribute \<^verbatim>\<open>Spline64\<close> of the upscaler.
  \<^verbatim>\<open>w / scale\<close> raises \<^verbatim>\<open>ZeroDivisionError\<close> for \<open>scale = 0\<close>.
\<close>

definition vs_lfdeband ::
  "host \<Rightarrow> clip \<Rightarrow> int \<Rightarrow> int one_or_many \<Rightarrow> int one_or_many \<Rightarrow> int \<Rightarrow> string \<Rightarrow>
   string option \<Rightarrow> debander_arg \<Rightarrow> clip action" where
  "vs_lfdeband host clip radius thr grains scale scaler upscaler debander =
     bnd (check_variable clip ''lfdeband'') (\<lambda>fmt.
     let db = ensure_debander debander;
         upscaler' = (case upscaler of None \<Rightarrow> scaler | Some u \<Rightarrow> u);
         wss = (2::int) ^ subsampling_w fmt;
         hss = (2::int) ^ subsampling_h fmt;
         w = width clip;
         h = height clip
     in
     if scale = 0 then raise (Raise ZeroDivisionError ''division by zero'')
     else
     let dw = py_round (of_int w / of_int scale);
         dh = py_round (of_int h / of_int scale)
     in
     bnd (expect_bits host clip 16) (\<lambda>(clip16, bits).
     bnd (invoke host (ScalerScale scaler clip16 (dw - dw mod wss) (dh - dh mod hss)))
       (\<lambda>dsc.
     bnd (invoke host (DebanderDeband db (FuncArg ''blur'') radius thr grains)) (\<lambda>deband.
     bnd (invoke host (MakeDiff deband dsc)) (\<lambda>ddif.
     bnd (invoke host (ScalerSpline64 upscaler' ddif w h)) (\<lambda>dif.
     bnd (invoke host (MergeDiff clip16 dif)) (\<lambda>out.
     invoke host (Depth out bits))))))))"

text \<open>
  The helpers of vstools that \<^verbatim>\<open>guided_deband\<close> consults and whose answers the two files
  do not determine: \<^verbatim>\<open>normalize_planes\<close>, \<^verbatim>\<open>ColorRange.from_video\<close>, the truth value of a
  \<^verbatim>\<open>ColorRange\<close> member (for the \<^verbatim>\<open>or\<close> of line 186) and \<^verbatim>\<open>scale_value\<close>.
\<close>

datatype color_range = LIMITED | FULL

record vstools =
  normalize_planes :: "clip \<Rightarrow> int one_or_many option \<Rightarrow> int list"
  range_from_video :: "clip \<Rightarrow> color_range"
  range_truthy :: "color_range \<Rightarrow> bool"
  scale_value :: "rat \<Rightarrow> int \<Rightarrow> pyarg \<Rightarrow> error + rat"

text \<open>Line 186: \<^verbatim>\<open>ColorRange.from_param(range_in) or ColorRange.from_video(clip)\<close>.\<close>

definition effective_range :: "vstools \<Rightarrow> clip \<Rightarrow> color_range option \<Rightarrow> color_range" where
  "effective_range vt clip range_in =
     (case range_in of
        Some r \<Rightarrow> if range_truthy vt r then r else range_from_video vt clip
      | None \<Rightarrow> range_from_video vt clip)"

text \<open>Line 188: \<^verbatim>\<open>fallback(rad, ceil(clip.height / 540))\<close>: \<open>rad\<close> unless it is \<^verbatim>\<open>None\<close>.\<close>

definition mask_radius :: "clip \<Rightarrow> int option \<Rightarrow> int" where
  "mask_radius clip rad =
     (case rad of None \<Rightarrow> \<lceil>(of_int (height clip) :: rat) / 540\<rceil> | Some r \<Rightarrow> r)"

text \<open>Lines 190-196: the binarize threshold, one value per plane.\<close>

definition binarize_threshold ::
  "vstools \<Rightarrow> video_format \<Rightarrow> color_range \<Rightarrow> rat one_or_many option \<Rightarrow> error + rat list" where
  "binarize_threshold vt fmt rng bin_thr =
     (case (case bin_thr of
              None \<Rightarrow>
                if sample_type fmt = FLOAT
                then Inr (if rng = FULL then One ((15 / 10) / 255)
                          else Many [(15 / 10) / 219, (15 / 10) / 224])
                else (case scale_value vt (5859375 / 1000000000) 32 (FuncArg ''scale_value'') of
                        Inl e \<Rightarrow> Inl e
                      | Inr v \<Rightarrow> Inr (One v))
            | Some b \<Rightarrow> Inr b) of
        Inl e \<Rightarrow> Inl e
      | Inr b \<Rightarrow> normalize_seq b (num_planes fmt))"

text \<open>
  Lines 204-211: the range mask, \<^verbatim>\<open>expand(clip, rad)\<close> minus \<^verbatim>\<open>inpand(clip, rad)\<close>,
  binarized if the threshold list is non-empty with a positive maximum, then the three
  \<^verbatim>\<open>removegrain\<close> passes.
\<close>

definition range_mask :: "host \<Rightarrow> clip \<Rightarrow> int \<Rightarrow> int list \<Rightarrow> rat list \<Rightarrow> clip action" where
  "range_mask host clip rad planes bin_thr =
     bnd (invoke host (Expand clip rad)) (\<lambda>ex.
     bnd (invoke host (Inpand clip rad)) (\<lambda>inp.
     bnd (invoke host (NormExpr [ex, inp] ''x y -'' planes)) (\<lambda>rmask.
     bnd (if bin_thr \<noteq> [] \<and> 0 < Max (set bin_thr)
          then invoke host (Binarize rmask bin_thr planes)
          else ret rmask) (\<lambda>rmask1.
     bnd (invoke host (RemoveGrain rmask1 ''OPP_CLIP_AVG_FAST'')) (\<lambda>rmask2.
     bnd (invoke host (RemoveGrain rmask2 ''SQUARE_BLUR'')) (\<lambda>rmask3.
     invoke host (RemoveGrain rmask3 ''MIN_SHARP'')))))))"

definition guided_deband ::
  "host \<Rightarrow> vstools \<Rightarrow> clip \<Rightarrow> val \<Rightarrow> rat \<Rightarrow> rat one_or_many option \<Rightarrow> string \<Rightarrow> int option \<Rightarrow>
   rat one_or_many option \<Rightarrow> int one_or_many option \<Rightarrow> color_range option \<Rightarrow> kwargs \<Rightarrow>
   clip action" where
  "guided_deband host vt clip radius strength thr mode rad bin_thr planes range_in kw =
     bnd (check_variable clip ''guided_deband'') (\<lambda>fmt.
     let planes' = normalize_planes vt clip planes;
         rng = effective_range vt clip range_in;
         rad' = mask_radius clip rad
     in
     bnd (lift (binarize_threshold vt fmt rng bin_thr)) (\<lambda>bin_thr'.
     bnd (invoke host (GuidedFilter clip VNone radius strength mode planes' kw)) (\<lambda>deband.
     bnd (if (case thr of None \<Rightarrow> False | Some t \<Rightarrow> truthy t)
          then invoke host (LimitFilter [deband, clip]
                 [(''thr'', VList (map (\<lambda>x. VInt (py_int x))
                                    (case thr of None \<Rightarrow> [] | Some t \<Rightarrow> to_arr t)))])
          else ret deband) (\<lambda>deband'.
     if rad' \<noteq> 0
     then
       bnd (range_mask host clip rad' planes' bin_thr') (\<lambda>rmask.
       invoke host (MaskedMerge deband' clip rmask planes'))
     else ret deband'))))"

section \<open>Reading the record of calls\<close>

fun is_Depth :: "call \<Rightarrow> bool" where
  "is_Depth (Depth c b) = True"
| "is_Depth _ = False"

fun is_Prefilter :: "call \<Rightarrow> bool" where
  "is_Prefilter (Prefilter c kw) = True"
| "is_Prefilter _ = False"


text \<open>What a debanding call was given as its input.\<close>

fun deband_input :: "call \<Rightarrow> pyarg list" where
  "deband_input (F3kdbDeband db c) = [ClipArg c]"
| "deband_input (PlaceboDeband p c) = [ClipArg c]"
| "deband_input (DebanderDeband db a r t g) = [a]"
| "deband_input _ = []"

definition deband_inputs :: "call list \<Rightarrow> pyarg list" where
  "deband_inputs l = concat (map deband_input l)"

section \<open>What the pipelines rely on from the host\<close>



text \<open>
  \<^verbatim>\<open>depth\<close> and \<^verbatim>\<open>std.MergeDiff\<close> return a clip of the size of their first clip
  argument; \<^verbatim>\<open>resize.Spline64(clip, w, h)\<close> returns a clip of size \<open>w\<close> by \<open>h\<close>.
\<close>

definition size_of :: "clip \<Rightarrow> int \<times> int" where
  "size_of c = (width c, height c)"

definition keeps_size :: "host \<Rightarrow> bool" where
  "keeps_size host \<longleftrightarrow>
     (\<forall>c b c'. host (Depth c b) = Inr c' \<longrightarrow> size_of c' = size_of c) \<and>
     (\<forall>a b c'. host (MergeDiff a b) = Inr c' \<longrightarrow> size_of c' = size_of a)"

section \<open>Reference hosts and clips\<close>

text \<open>
  A host that never fails and answers as VapourSynth describes its filters: the result
  has the attributes of the first clip argument, \<open>Depth\<close> sets the bit depth (and
  refuses a variable-format clip), the resizers set width and height; the node records
  which filter was applied to which inputs. A function object where a clip is expected
  is refused.
\<close>

definition applied :: "string \<Rightarrow> clip \<Rightarrow> clip list \<Rightarrow> error + clip" where
  "applied name c cs = Inr (c\<lparr>node := Filter name (map node (c # cs))\<rparr>)"

definition set_bits :: "nat \<Rightarrow> clip \<Rightarrow> clip" where
  "set_bits b c = c\<lparr>format := map_option (\<lambda>f. f\<lparr>bits_per_sample := b\<rparr>) (format c)\<rparr>"

fun sym_host :: host where
  "sym_host (Depth c b) =
     (if format c = None then Inl (Raise VariableFormatError ''depth'')
      else applied ''depth'' (set_bits b c) [])"
| "sym_host (Convolution c m p) = applied ''std.Convolution'' c []"
| "sym_host (MakeDiff a b) = applied ''std.MakeDiff'' a [b]"
| "sym_host (MergeDiff a b) = applied ''std.MergeDiff'' a [b]"
| "sym_host (ResizeSpline64 c w h) = applied ''resize.Spline64'' (c\<lparr>width := w, height := h\<rparr>) []"
| "sym_host (LimitFilter cs kw) =
     (case cs of [] \<Rightarrow> Inl (Raise TypeError ''limit_filter'') | c # r \<Rightarrow> applied ''limit_filter'' c r)"
| "sym_host (F3kdbDeband db c) = applied ''F3kdb.deband'' c []"
| "sym_host (F3kdbGrain db c) = applied ''F3kdb.grain'' c []"
| "sym_host (PlaceboDeband p c) = applied ''Placebo.deband'' c []"
| "sym_host (DebanderDeband db (ClipArg c) r t g) = applied (db_class db @ ''.deband'') c []"
| "sym_host (DebanderDeband db (FuncArg f) r t g) =
     Inl (Raise AttributeError ''function object is not a clip'')"
| "sym_host (DebanderGrain db c g) = applied (db_class db @ ''.grain'') c []"
| "sym_host (Prefilter c kw) = applied ''prefilter'' c []"
| "sym_host (ScalerScale s c w h) = applied (s @ ''.scale'') (c\<lparr>width := w, height := h\<rparr>) []"
| "sym_host (ScalerSpline64 s c w h) =
     applied (s @ ''.Spline64'') (c\<lparr>width := w, height := h\<rparr>) []"
| "sym_host (GuidedFilter c g r s m p kw) = applied ''guided_filter'' c []"
| "sym_host (Expand c r) = applied ''expand'' c []"
| "sym_host (Inpand c r) = applied ''inpand'' c []"
| "sym_host (NormExpr cs e p) =
     (case cs of [] \<Rightarrow> Inl (Raise TypeError ''norm_expr'') | c # r \<Rightarrow> applied ''norm_expr'' c r)"
| "sym_host (Binarize c t p) = applied ''std.Binarize'' c []"
| "sym_host (RemoveGrain c m) = applied ''removegrain'' c []"
| "sym_host (MaskedMerge a b m p) = applied ''std.MaskedMerge'' a [b, m]"

text \<open>A host whose \<^verbatim>\<open>std.Convolution\<close> rejects the \<^verbatim>\<open>planes\<close> argument.\<close>

definition no_planes_host :: host where
  "no_planes_host c =
     (case c of
        Convolution a m (Some p) \<Rightarrow> Inl (Raise TypeError ''unexpected keyword argument planes'')
      | _ \<Rightarrow> sym_host c)"

text \<open>A prefilter that accepts no \<^verbatim>\<open>planes\<close> keyword, and one that is interrupted.\<close>

definition plain_prefilter :: "clip \<Rightarrow> kwargs \<Rightarrow> error + clip" where
  "plain_prefilter c kw =
     (if ''planes'' \<in> set (map fst kw)
      then Inl (Raise TypeError ''unexpected keyword argument planes'')
      else applied ''plain_prefilter'' c [])"

definition interrupted_prefilter :: "clip \<Rightarrow> kwargs \<Rightarrow> error + clip" where
  "interrupted_prefilter c kw = Inl (Raise KeyboardInterrupt ''interrupted'')"

text \<open>How \<^verbatim>\<open>F3kdb\<close> is taken to spread a threshold over the planes in the examples.\<close>

fun spread :: th_split where
  "spread None = (30, 30, 30)"
| "spread (Some (One t)) = (t, t, t)"
| "spread (Some (Many ts)) =
     (case ts of
        [] \<Rightarrow> (30, 30, 30)
      | [a] \<Rightarrow> (a, a, a)
      | [a, b] \<Rightarrow> (a, b, b)
      | a # b # c # r \<Rightarrow> (a, b, c))"

definition yuv420 :: "nat \<Rightarrow> sample_type \<Rightarrow> video_format" where
  "yuv420 b st =
     \<lparr>bits_per_sample = b, sample_type = st, subsampling_w = 1, subsampling_h = 1,
      num_planes = 3\<rparr>"

definition clip8 :: clip where
  "clip8 = \<lparr>format = Some (yuv420 8 INTEGER), width = 1920, height = 1080, node = Source 0\<rparr>"


definition variable_clip :: clip where
  "variable_clip = \<lparr>format = None, width = 1920, height = 1080, node = Source 0\<rparr>"


section \<open>Rounding of the stage radii\<close>






section \<open>Successful runs\<close>

lemma bnd_Inr:
  assumes "bnd m f l = (Inr y, l'')"
  obtains x l' where "m l = (Inr x, l')" and "f x l' = (Inr y, l'')"
  using assms by (auto simp: bnd_def split: prod.splits sum.splits)

lemma invoke_Inr:
  assumes "invoke host c l = (Inr x, l')"
  shows "host c = Inr x \<and> l' = l @ [c]"
  using assms by (auto simp: invoke_def)

lemma lift_Inr:
  assumes "lift r l = (Inr x, l')"
  shows "r = Inr x \<and> l' = l"
  using assms by (auto simp: lift_def)

lemma ret_Inr:
  assumes "ret v l = (Inr x, l')"
  shows "x = v \<and> l' = l"
  using assms by (auto simp: ret_def)





lemma lfdeband_success:
  assumes fmt: "format clip = Some fmt"
    and run: "lfdeband host split clip radius threshold grain f3kdb_args l = (Inr out, l')"
  shows "\<exists>c16 dw dh dsc db d3kdb ddif dif merged.
           host (Depth clip 16) = Inr c16 \<and>
           host (ResizeSpline64 c16 dw dh) = Inr dsc \<and>
           host (F3kdbDeband db dsc) = Inr d3kdb \<and>
           host (MakeDiff d3kdb dsc) = Inr ddif \<and>
           host (ResizeSpline64 ddif (width clip) (height clip)) = Inr dif \<and>
           host (MergeDiff c16 dif) = Inr merged \<and>
           host (Depth merged (bits_per_sample fmt)) = Inr out \<and>
           l' = l @ [Depth clip 16, ResizeSpline64 c16 dw dh, F3kdbDeband db dsc,
                     MakeDiff d3kdb dsc, ResizeSpline64 ddif (width clip) (height clip),
                     MergeDiff c16 dif, Depth merged (bits_per_sample fmt)]"
  using run unfolding lfdeband_def fmt option.case Let_def
  apply (elim bnd_Inr)
  apply (auto dest!: invoke_Inr lift_Inr ret_Inr)
  done



text \<open>Every step only appends to the record of calls.\<close>

lemma extends_invoke: "\<exists>ext. snd (invoke host c l) = l @ ext"
  by (simp add: invoke_def)

lemma extends_bnd:
  assumes "\<And>l. \<exists>ext. snd (m l) = l @ ext" and "\<And>x l. \<exists>ext. snd (f x l) = l @ ext"
  shows "\<exists>ext. snd (bnd m f l) = l @ ext"
proof (cases "m l")
  case (Pair r l1)
  from assms(1) [of l] Pair obtain e1 where e1: "l1 = l @ e1" by auto
  show ?thesis
  proof (cases r)
    case (Inl e)
    with Pair e1 show ?thesis by (simp add: bnd_def)
  next
    case (Inr x)
    from assms(2) [of x l1] obtain e2 where "snd (f x l1) = l1 @ e2" by blast
    with Pair Inr e1 show ?thesis by (simp add: bnd_def)
  qed
qed

lemma extends_ret: "\<exists>ext. snd (ret x l) = l @ ext"
  by (simp add: ret_def)

lemma extends_range_mask: "\<exists>ext. snd (range_mask host clip rad planes t l) = l @ ext"
  unfolding range_mask_def
  by (intro extends_bnd extends_invoke) (simp_all add: extends_invoke extends_ret)

lemma guided_deband_first_call:
  assumes fmt: "format clip = Some fmt"
    and t: "binarize_threshold vt fmt (effective_range vt clip range_in) bin_thr = Inr t"
  shows "\<exists>rest. snd (guided_deband host vt clip radius strength thr mode rad bin_thr planes
                       range_in kw l)
               = l @ GuidedFilter clip VNone radius strength mode (normalize_planes vt clip planes)
                       kw # rest"
proof -
  let ?gf = "GuidedFilter clip VNone radius strength mode (normalize_planes vt clip planes) kw"
  obtain k where k: "guided_deband host vt clip radius strength thr mode rad bin_thr planes
                       range_in kw l = bnd (invoke host ?gf) k l"
    and ext: "\<And>x l. \<exists>ext. snd (k x l) = l @ ext"
  proof
    show "guided_deband host vt clip radius strength thr mode rad bin_thr planes
                       range_in kw l = bnd (invoke host ?gf) (\<lambda>deband.
     bnd (if (case thr of None \<Rightarrow> False | Some t \<Rightarrow> truthy t)
          then invoke host (LimitFilter [deband, clip]
                 [(''thr'', VList (map (\<lambda>x. VInt (py_int x))
                                    (case thr of None \<Rightarrow> [] | Some t \<Rightarrow> to_arr t)))])
          else ret deband) (\<lambda>deband'.
     if mask_radius clip rad \<noteq> 0
     then
       bnd (range_mask host clip (mask_radius clip rad) (normalize_planes vt clip planes) t)
         (\<lambda>rmask.
       invoke host (MaskedMerge deband' clip rmask (normalize_planes vt clip planes)))
     else ret deband')) l"
      by (simp add: guided_deband_def check_variable_def fmt t ret_def bnd_def lift_def Let_def)
    show "\<exists>ext. snd ((\<lambda>deband.
     bnd (if (case thr of None \<Rightarrow> False | Some t \<Rightarrow> truthy t)
          then invoke host (LimitFilter [deband, clip]
                 [(''thr'', VList (map (\<lambda>x. VInt (py_int x))
                                    (case thr of None \<Rightarrow> [] | Some t \<Rightarrow> to_arr t)))])
          else ret deband) (\<lambda>deband'.
     if mask_radius clip rad \<noteq> 0
     then
       bnd (range_mask host clip (mask_radius clip rad) (normalize_planes vt clip planes) t)
         (\<lambda>rmask.
       invoke host (MaskedMerge deband' clip rmask (normalize_planes vt clip planes)))
     else ret deband')) x l) = l @ ext" for x l
      by (intro extends_bnd) (simp_all add: extends_invoke extends_ret extends_range_mask extends_bnd)
  qed
  show ?thesis
  proof (cases "host ?gf")
    case (Inl e)
    then show ?thesis by (simp add: k bnd_def invoke_def)
  next
    case (Inr x)
    from ext [of x "l @ [?gf]"] obtain e where "snd (k x (l @ [?gf])) = (l @ [?gf]) @ e" by blast
    with Inr show ?thesis by (simp add: k bnd_def invoke_def)
  qed
qed

section \<open>Bit depth\<close>



lemma call_prefilter_no_depth:
  "filter is_Depth (snd (call_prefilter prefilter clip planes kw l)) = filter is_Depth l"
  by (simp add: call_prefilter_def raise_def split: option.splits)





section \<open>The pass-through wrappers\<close>

text \<open>
  C9. \<^verbatim>\<open>dumb3kdb(clip, ...)\<close> is \<^verbatim>\<open>F3kdb(...).deband(clip)\<close> and
  \<^verbatim>\<open>placebo_deband(clip, ...)\<close> is \<^verbatim>\<open>Placebo(...).deband(clip)\<close>, with the same
  parameters: the outcome is the answer of that one call, and it is the only call made.
\<close>

theorem passthrough_deband:
  "dumb3kdb host split clip radius threshold grain sample_mode use_neo kw l =
     (case F3kdb split (Some radius) (Some threshold) (Some grain) (Some sample_mode)
             (Some use_neo) kw of
        Inl e \<Rightarrow> (Inl e, l)
      | Inr db \<Rightarrow> (host (F3kdbDeband db clip), l @ [F3kdbDeband db clip]))
   \<and> placebo_deband host clip pradius pthreshold iterations pgrain pkw l =
     (case Placebo pradius pthreshold iterations pgrain pkw of
        Inl e \<Rightarrow> (Inl e, l)
      | Inr p \<Rightarrow> (host (PlaceboDeband p clip), l @ [PlaceboDeband p clip]))"
  by (simp add: dumb3kdb_def placebo_deband_def bnd_def lift_def invoke_def split: sum.splits)

theorem passthrough_deband_witness:
  "dumb3kdb sym_host spread clip8 16 (One 30) (One 0) 2 False [] [] =
     (sym_host (F3kdbDeband \<lparr>f3_radius = Some 16, thy = 30, thcb = 30, thcr = 30,
                  f3_grain = Some (One 0), f3_sample_mode = Some 2, f3_use_neo = Some False,
                  f3_kwargs = []\<rparr> clip8),
      [F3kdbDeband \<lparr>f3_radius = Some 16, thy = 30, thcb = 30, thcr = 30,
                  f3_grain = Some (One 0), f3_sample_mode = Some 2, f3_use_neo = Some False,
                  f3_kwargs = []\<rparr> clip8])
   \<and> placebo_deband sym_host clip8 16 (One 4) 1 (One 6) [] [] =
     (sym_host (PlaceboDeband \<lparr>pl_radius = 16, pl_threshold = One 4, pl_iterations = 1,
                  pl_grain = One 6, pl_kwargs = []\<rparr> clip8),
      [PlaceboDeband \<lparr>pl_radius = 16, pl_threshold = One 4, pl_iterations = 1,
                  pl_grain = One 6, pl_kwargs = []\<rparr> clip8])"
  using passthrough_deband [of sym_host spread clip8 16 "One 30" "One 0" 2 False "[]" "[]"
      16 "One 4" 1 "One 6" "[]"]
  by (simp add: F3kdb_def Placebo_def passed_names_def)


section \<open>The format check\<close>

text \<open>
  The claim as stated ("every pipeline function") fails for the two wrappers:
  \<^verbatim>\<open>dumb3kdb\<close> on a variable-format clip checks nothing and calls the debander.
\<close>

theorem dumb3kdb_does_not_check:
  "format variable_clip = None \<and>
   snd (dumb3kdb sym_host spread variable_clip 16 (One 30) (One 0) 2 False [] []) =
     [F3kdbDeband \<lparr>f3_radius = Some 16, thy = 30, thcb = 30, thcr = 30,
                  f3_grain = Some (One 0), f3_sample_mode = Some 2, f3_use_neo = Some False,
                  f3_kwargs = []\<rparr> variable_clip]"
  by (simp add: dumb3kdb_def bnd_def lift_def invoke_def F3kdb_def passed_names_def
      variable_clip_def)

lemma f3kbilateral_checked:
  assumes "format clip = Some fmt"
  shows "f3kbilateral host split clip radius threshold grain f3kdb_args limflt_args l
         \<noteq> (Inl (Raise ValueError (variable_format_msg ''f3kbilateral'')), l)"
  using assms
  by (simp add: f3kbilateral_def bnd_def invoke_def lift_def raise_def ret_def Let_def F3kdb_def
      split: sum.splits if_splits)

lemma f3kpf_checked:
  assumes "format clip = Some fmt"
  shows "f3kpf host split clip radius threshold grain f3kdb_args limflt_args l
         \<noteq> (Inl (Raise ValueError (variable_format_msg ''f3kpf'')), l)"
  using assms
  by (simp add: f3kpf_def bnd_def invoke_def lift_def raise_def ret_def Let_def
      split: sum.splits if_splits)

lemma lfdeband_checked:
  assumes "format clip = Some fmt"
  shows "lfdeband host split clip radius threshold grain kw l
         \<noteq> (Inl (Raise ValueError (variable_format_msg ''lfdeband'')), l)"
  using assms
  by (simp add: lfdeband_def bnd_def invoke_def lift_def raise_def ret_def Let_def
      split: sum.splits if_splits)

lemma mdb_bilateral_checked:
  assumes "format clip = Some fmt"
  shows "mdb_bilateral host clip radius thr grains lthr elast bright_thr debander l
         \<noteq> (Inl (Raise VariableFormatError ''mdb_bilateral''), l)"
  using assms
  by (simp add: mdb_bilateral_def check_variable_def expect_bits_def bnd_def invoke_def
      raise_def ret_def Let_def split: sum.splits if_splits prod.splits)

lemma pfdeband_checked:
  assumes "format clip = Some fmt"
  shows "pfdeband host prefilter clip radius thr grains lthr elast bright_thr debander kw l
         \<noteq> (Inl (Raise VariableFormatError ''pfdeband''), l)"
  using assms
  by (simp add: pfdeband_def check_variable_def bnd_def invoke_def try_except_def
      call_prefilter_def raise_def ret_def Let_def split: sum.splits if_splits prod.splits)

lemma vs_lfdeband_checked:
  assumes "format clip = Some fmt"
  shows "vs_lfdeband host clip radius thr grains scale scaler upscaler debander l
         \<noteq> (Inl (Raise VariableFormatError ''lfdeband''), l)"
  using assms
  by (simp add: vs_lfdeband_def check_variable_def expect_bits_def bnd_def invoke_def
      raise_def ret_def Let_def split: sum.splits if_splits prod.splits)

lemma guided_deband_checked:
  assumes fmt: "format clip = Some fmt"
    and run: "guided_deband host vt clip radius strength thr mode rad bin_thr planes range_in kw l
         = (Inl e, l)"
  shows "binarize_threshold vt fmt (effective_range vt clip range_in) bin_thr = Inl e"
proof (cases "binarize_threshold vt fmt (effective_range vt clip range_in) bin_thr")
  case (Inl e')
  with run show ?thesis
    by (simp add: guided_deband_def check_variable_def fmt ret_def bnd_def lift_def Let_def)
next
  case (Inr t)
  from guided_deband_first_call [OF fmt Inr, of host radius strength thr mode rad planes kw l]
    run
  show ?thesis by simp
qed

text \<open>
  C3, as the code has it. Each of \<^verbatim>\<open>f3kbilateral\<close>, \<^verbatim>\<open>f3kpf\<close>, \<^verbatim>\<open>lfdeband\<close> (both
  modules), \<^verbatim>\<open>mdb_bilateral\<close>, \<^verbatim>\<open>pfdeband\<close> and \<^verbatim>\<open>guided_deband\<close> answers a
  variable-format clip with its format error and leaves the record of calls as it was:
  nothing has been invoked. On a clip with a concrete format the outcome is never that
  error with an untouched record (for \<^verbatim>\<open>guided_deband\<close>: a failure with an untouched
  record is the failure of the threshold computation). The wrappers \<^verbatim>\<open>dumb3kdb\<close> and
  \<^verbatim>\<open>placebo_deband\<close> have no check of their own.
\<close>

theorem variable_format_rejected:
  "(format clip = None \<longrightarrow>
      f3kbilateral host split clip radius threshold grain f3kdb_args limflt_args l
        = (Inl (Raise ValueError (variable_format_msg ''f3kbilateral'')), l) \<and>
      f3kpf host split clip radius threshold grain f3kdb_args limflt_args l
        = (Inl (Raise ValueError (variable_format_msg ''f3kpf'')), l) \<and>
      lfdeband host split clip radius threshold grain kw l
        = (Inl (Raise ValueError (variable_format_msg ''lfdeband'')), l) \<and>
      mdb_bilateral host clip radius thr grains lthr elast bright_thr debander l
        = (Inl (Raise VariableFormatError ''mdb_bilateral''), l) \<and>
      pfdeband host prefilter clip radius thr grains lthr elast bright_thr debander kw l
        = (Inl (Raise VariableFormatError ''pfdeband''), l) \<and>
      vs_lfdeband host clip radius thr grains scale scaler upscaler debander l
        = (Inl (Raise VariableFormatError ''lfdeband''), l) \<and>
      guided_deband host vt clip gradius strength gthr mode rad bin_thr planes range_in kw l
        = (Inl (Raise VariableFormatError ''guided_deband''), l))
   \<and> (\<forall>fmt. format clip = Some fmt \<longrightarrow>
      f3kbilateral host split clip radius threshold grain f3kdb_args limflt_args l
        \<noteq> (Inl (Raise ValueError (variable_format_msg ''f3kbilateral'')), l) \<and>
      f3kpf host split clip radius threshold grain f3kdb_args limflt_args l
        \<noteq> (Inl (Raise ValueError (variable_format_msg ''f3kpf'')), l) \<and>
      lfdeband host split clip radius threshold grain kw l
        \<noteq> (Inl (Raise ValueError (variable_format_msg ''lfdeband'')), l) \<and>
      mdb_bilateral host clip radius thr grains lthr elast bright_thr debander l
        \<noteq> (Inl (Raise VariableFormatError ''mdb_bilateral''), l) \<and>
      pfdeband host prefilter clip radius thr grains lthr elast bright_thr debander kw l
        \<noteq> (Inl (Raise VariableFormatError ''pfdeband''), l) \<and>
      vs_lfdeband host clip radius thr grains scale scaler upscaler debander l
        \<noteq> (Inl (Raise VariableFormatError ''lfdeband''), l) \<and>
      (\<forall>e. guided_deband host vt clip gradius strength gthr mode rad bin_thr planes range_in kw l
             = (Inl e, l) \<longrightarrow>
           binarize_threshold vt fmt (effective_range vt clip range_in) bin_thr = Inl e))"
proof (intro conjI impI allI)
  assume v: "format clip = None"
  show "f3kbilateral host split clip radius threshold grain f3kdb_args limflt_args l
        = (Inl (Raise ValueError (variable_format_msg ''f3kbilateral'')), l)"
    by (simp add: f3kbilateral_def v raise_def)
  show "f3kpf host split clip radius threshold grain f3kdb_args limflt_args l
        = (Inl (Raise ValueError (variable_format_msg ''f3kpf'')), l)"
    by (simp add: f3kpf_def v raise_def)
  show "lfdeband host split clip radius threshold grain kw l
        = (Inl (Raise ValueError (variable_format_msg ''lfdeband'')), l)"
    by (simp add: lfdeband_def v raise_def)
  show "mdb_bilateral host clip radius thr grains lthr elast bright_thr debander l
        = (Inl (Raise VariableFormatError ''mdb_bilateral''), l)"
    by (simp add: mdb_bilateral_def check_variable_def bnd_def v raise_def)
  show "pfdeband host prefilter clip radius thr grains lthr elast bright_thr debander kw l
        = (Inl (Raise VariableFormatError ''pfdeband''), l)"
    by (simp add: pfdeband_def check_variable_def bnd_def v raise_def)
  show "vs_lfdeband host clip radius thr grains scale scaler upscaler debander l
        = (Inl (Raise VariableFormatError ''lfdeband''), l)"
    by (simp add: vs_lfdeband_def check_variable_def bnd_def v raise_def)
  show "guided_deband host vt clip gradius strength gthr mode rad bin_thr planes range_in kw l
        = (Inl (Raise VariableFormatError ''guided_deband''), l)"
    by (simp add: guided_deband_def check_variable_def bnd_def v raise_def)
next
  fix fmt assume f: "format clip = Some fmt"
  show "f3kbilateral host split clip radius threshold grain f3kdb_args limflt_args l
        \<noteq> (Inl (Raise ValueError (variable_format_msg ''f3kbilateral'')), l)"
    by (rule f3kbilateral_checked [OF f])
  show "f3kpf host split clip radius threshold grain f3kdb_args limflt_args l
        \<noteq> (Inl (Raise ValueError (variable_format_msg ''f3kpf'')), l)"
    by (rule f3kpf_checked [OF f])
  show "lfdeband host split clip radius threshold grain kw l
        \<noteq> (Inl (Raise ValueError (variable_format_msg ''lfdeband'')), l)"
    by (rule lfdeband_checked [OF f])
  show "mdb_bilateral host clip radius thr grains lthr elast bright_thr debander l
        \<noteq> (Inl (Raise VariableFormatError ''mdb_bilateral''), l)"
    by (rule mdb_bilateral_checked [OF f])
  show "pfdeband host prefilter clip radius thr grains lthr elast bright_thr debander kw l
        \<noteq> (Inl (Raise VariableFormatError ''pfdeband''), l)"
    by (rule pfdeband_checked [OF f])
  show "vs_lfdeband host clip radius thr grains scale scaler upscaler debander l
        \<noteq> (Inl (Raise VariableFormatError ''lfdeband''), l)"
    by (rule vs_lfdeband_checked [OF f])
  fix e
  assume "guided_deband host vt clip gradius strength gthr mode rad bin_thr planes range_in kw l
          = (Inl e, l)"
  from guided_deband_checked [OF f this]
  show "binarize_threshold vt fmt (effective_range vt clip range_in) bin_thr = Inl e" .
qed

theorem variable_format_rejected_witness:
  "format variable_clip = None \<and>
   f3kbilateral sym_host spread variable_clip 16 (One 65) (One 0) None None []
     = (Inl (Raise ValueError (variable_format_msg ''f3kbilateral'')), []) \<and>
   mdb_bilateral sym_host variable_clip 16 (One 65) (One 0) (VList [VInt 153, VInt 0]) 3 None
       (DebanderType ''F3kdb'') []
     = (Inl (Raise VariableFormatError ''mdb_bilateral''), []) \<and>
   format clip8 = Some (yuv420 8 INTEGER) \<and>
   f3kbilateral sym_host spread clip8 16 (One 65) (One 0) None None []
     \<noteq> (Inl (Raise ValueError (variable_format_msg ''f3kbilateral'')), []) \<and>
   mdb_bilateral sym_host clip8 16 (One 65) (One 0) (VList [VInt 153, VInt 0]) 3 None
       (DebanderType ''F3kdb'') []
     \<noteq> (Inl (Raise VariableFormatError ''mdb_bilateral''), [])"
proof -
  have v: "format variable_clip = None" by (simp add: variable_clip_def)
  have c: "format clip8 = Some (yuv420 8 INTEGER)" by (simp add: clip8_def)
  from variable_format_rejected [where clip = variable_clip and host = sym_host and split = spread and radius = 16
      and threshold = "One 65" and grain = "One 0" and ?f3kdb_args = None
      and limflt_args = None and l = "[]" and thr = "One 65" and grains = "One 0"
      and lthr = "VList [VInt 153, VInt 0]" and elast = 3 and bright_thr = None
      and debander = "DebanderType ''F3kdb''"] v
  have a: "f3kbilateral sym_host spread variable_clip 16 (One 65) (One 0) None None []
     = (Inl (Raise ValueError (variable_format_msg ''f3kbilateral'')), []) \<and>
   mdb_bilateral sym_host variable_clip 16 (One 65) (One 0) (VList [VInt 153, VInt 0]) 3 None
       (DebanderType ''F3kdb'') []
     = (Inl (Raise VariableFormatError ''mdb_bilateral''), [])"
    by blast
  from variable_format_rejected [where clip = clip8 and host = sym_host and split = spread and radius = 16
      and threshold = "One 65" and grain = "One 0" and ?f3kdb_args = None
      and limflt_args = None and l = "[]" and thr = "One 65" and grains = "One 0"
      and lthr = "VList [VInt 153, VInt 0]" and elast = 3 and bright_thr = None
      and debander = "DebanderType ''F3kdb''"] c
  have b: "f3kbilateral sym_host spread clip8 16 (One 65) (One 0) None None []
     \<noteq> (Inl (Raise ValueError (variable_format_msg ''f3kbilateral'')), []) \<and>
   mdb_bilateral sym_host clip8 16 (One 65) (One 0) (VList [VInt 153, VInt 0]) 3 None
       (DebanderType ''F3kdb'') []
     \<noteq> (Inl (Raise VariableFormatError ''mdb_bilateral''), [])"
    by blast
  from a b v c show ?thesis by blast
qed

section \<open>Thresholds of the three stages\<close>



section \<open>The prefilter fallback\<close>

lemma pfdeband_retry:
  assumes fmt: "format clip = Some fmt"
    and first: "call_prefilter prefilter clip (Some (VInt 0)) kw l = (Inl e, l1)"
    and exc: "is_Exception e"
  shows "pfdeband host prefilter clip radius thr grains lthr elast bright_thr debander kw l =
     (case prefilter clip kw of
        Inl e2 \<Rightarrow> (Inl e2, l1 @ [Prefilter clip kw])
      | Inr blur \<Rightarrow>
          bnd (invoke host (MakeDiff clip blur)) (\<lambda>diff.
          bnd (invoke host (DebanderDeband (ensure_debander debander) (ClipArg blur) radius thr
                 grains)) (\<lambda>deband.
          bnd (invoke host (LimitFilter [deband, blur] (limit_kwargs lthr elast bright_thr)))
            (\<lambda>limit.
          invoke host (MergeDiff limit diff)))) (l1 @ [Prefilter clip kw]))"
  using first exc
  by (simp add: pfdeband_def check_variable_def fmt ret_def bnd_def try_except_def Let_def
      call_prefilter_def [of prefilter clip None] split: sum.splits)

lemma pipeline_tail_no_prefilter:
  "filter is_Prefilter
     (snd ((bnd (invoke host (MakeDiff clip blur)) (\<lambda>diff.
          bnd (invoke host (DebanderDeband db (ClipArg blur) radius thr grains)) (\<lambda>deband.
          bnd (invoke host (LimitFilter [deband, blur] lk)) (\<lambda>limit.
          invoke host (MergeDiff limit diff))))) l))
   = filter is_Prefilter l"
  by (simp add: bnd_def invoke_def split: sum.splits)

lemma pipeline_tail_starts:
  "\<exists>rest. snd ((bnd (invoke host (MakeDiff clip blur)) (\<lambda>diff.
          bnd (invoke host (DebanderDeband db (ClipArg blur) radius thr grains)) (\<lambda>deband.
          bnd (invoke host (LimitFilter [deband, blur] lk)) (\<lambda>limit.
          invoke host (MergeDiff limit diff))))) l)
        = l @ MakeDiff clip blur # rest \<and> filter is_Prefilter rest = [] \<and>
      (\<forall>diff. host (MakeDiff clip blur) = Inr diff \<longrightarrow>
         (\<exists>rest'. rest = DebanderDeband db (ClipArg blur) radius thr grains # rest'))"
  by (simp add: bnd_def invoke_def split: sum.splits)

text \<open>
  The claim as stated fails for \<^verbatim>\<open>f3kpf\<close>: its prefilter is the fixed pair of
  \<^verbatim>\<open>std.Convolution\<close> calls, and when the call with \<^verbatim>\<open>planes=0\<close> raises, the error
  leaves \<^verbatim>\<open>f3kpf\<close> after these two calls, without a retry.
\<close>

theorem f3kpf_does_not_retry:
  "f3kpf no_planes_host spread clip8 16 (One 30) (One 0) None None [] =
     (Inl (Raise TypeError ''unexpected keyword argument planes''),
      [Convolution clip8 [1, 2, 1, 2, 4, 2, 1, 2, 1] None,
       Convolution (clip8\<lparr>node := Filter ''std.Convolution'' [Source 0]\<rparr>)
         [1, 1, 1, 1, 1, 1, 1, 1, 1] (Some 0)])"
  by (simp add: f3kpf_def bnd_def invoke_def lift_def raise_def Let_def clip8_def yuv420_def
      no_planes_host_def applied_def numeral_eq_Suc)

text \<open>
  C4, as the code has it. The fallback is in \<^verbatim>\<open>pfdeband\<close>: if the call
  \<^verbatim>\<open>prefilter(clip, planes=0, **kwargs)\<close> raises an \<^verbatim>\<open>Exception\<close>, the prefilter is
  called once more without \<^verbatim>\<open>planes\<close>, and the pipeline continues with the result of
  the retry: the difference and the debander are computed from it. \<^verbatim>\<open>f3kpf\<close> has no
  retry: an error of its second convolution is the outcome.
\<close>

theorem prefilter_fallback:
  assumes fmt: "format clip = Some fmt"
    and np: "''planes'' \<notin> set (map fst kw)"
    and first: "prefilter clip ((''planes'', VInt 0) # kw) = Inl e"
    and exc: "is_Exception e"
    and retry: "prefilter clip kw = Inr blur"
  shows "(\<exists>rest.
            snd (pfdeband host prefilter clip radius thr grains lthr elast bright_thr debander kw l)
              = l @ Prefilter clip ((''planes'', VInt 0) # kw) # Prefilter clip kw #
                    MakeDiff clip blur # rest \<and>
            filter is_Prefilter rest = [] \<and>
            (\<forall>diff. host (MakeDiff clip blur) = Inr diff \<longrightarrow>
               (\<exists>rest'. rest = DebanderDeband (ensure_debander debander) (ClipArg blur) radius thr
                                 grains # rest')))
       \<and> (\<forall>conv e'. host (Convolution clip [1, 2, 1, 2, 4, 2, 1, 2, 1] None) = Inr conv \<longrightarrow>
            host (Convolution conv (replicate 9 1) (Some 0)) = Inl e' \<longrightarrow>
            f3kpf host split clip radius threshold grain f3kdb_args limflt_args l
              = (Inl e', l @ [Convolution clip [1, 2, 1, 2, 4, 2, 1, 2, 1] None,
                              Convolution conv (replicate 9 1) (Some 0)]))"
proof (intro conjI allI impI)
  have c: "call_prefilter prefilter clip (Some (VInt 0)) kw l
           = (Inl e, l @ [Prefilter clip ((''planes'', VInt 0) # kw)])"
    using np first by (simp add: call_prefilter_def)
  from pipeline_tail_starts [of host clip blur "ensure_debander debander" radius thr grains
      "limit_kwargs lthr elast bright_thr"
      "(l @ [Prefilter clip ((''planes'', VInt 0) # kw)]) @ [Prefilter clip kw]"]
  show "\<exists>rest.
            snd (pfdeband host prefilter clip radius thr grains lthr elast bright_thr debander kw l)
              = l @ Prefilter clip ((''planes'', VInt 0) # kw) # Prefilter clip kw #
                    MakeDiff clip blur # rest \<and>
            filter is_Prefilter rest = [] \<and>
            (\<forall>diff. host (MakeDiff clip blur) = Inr diff \<longrightarrow>
               (\<exists>rest'. rest = DebanderDeband (ensure_debander debander) (ClipArg blur) radius thr
                                 grains # rest'))"
    by (simp add: pfdeband_retry [OF fmt c exc] retry)
next
  fix conv e'
  assume "host (Convolution clip [1, 2, 1, 2, 4, 2, 1, 2, 1] None) = Inr conv"
    and "host (Convolution conv (replicate 9 1) (Some 0)) = Inl e'"
  then show "f3kpf host split clip radius threshold grain f3kdb_args limflt_args l
              = (Inl e', l @ [Convolution clip [1, 2, 1, 2, 4, 2, 1, 2, 1] None,
                              Convolution conv (replicate 9 1) (Some 0)])"
    by (simp add: f3kpf_def fmt bnd_def invoke_def Let_def)
qed

theorem prefilter_fallback_witness:
  "format clip8 = Some (yuv420 8 INTEGER) \<and> ''planes'' \<notin> set (map fst ([] :: kwargs)) \<and>
   plain_prefilter clip8 [(''planes'', VInt 0)]
     = Inl (Raise TypeError ''unexpected keyword argument planes'') \<and>
   is_Exception (Raise TypeError ''unexpected keyword argument planes'') \<and>
   plain_prefilter clip8 [] = Inr (clip8\<lparr>node := Filter ''plain_prefilter'' [Source 0]\<rparr>) \<and>
   (\<exists>rest.
      snd (pfdeband sym_host plain_prefilter clip8 16 (One 30) (One 0) (VList [VInt 76, VInt 0])
             (5 / 2) None (DebanderType ''F3kdb'') [] [])
        = [] @ Prefilter clip8 [(''planes'', VInt 0)] # Prefilter clip8 [] #
               MakeDiff clip8 (clip8\<lparr>node := Filter ''plain_prefilter'' [Source 0]\<rparr>) # rest \<and>
      filter is_Prefilter rest = [])"
proof -
  have f: "format clip8 = Some (yuv420 8 INTEGER)" by (simp add: clip8_def)
  have n: "''planes'' \<notin> set (map fst ([] :: kwargs))" by simp
  have a: "plain_prefilter clip8 ((''planes'', VInt 0) # [])
     = Inl (Raise TypeError ''unexpected keyword argument planes'')"
    by (simp add: plain_prefilter_def)
  have x: "is_Exception (Raise TypeError ''unexpected keyword argument planes'')" by simp
  have r: "plain_prefilter clip8 [] = Inr (clip8\<lparr>node := Filter ''plain_prefilter'' [Source 0]\<rparr>)"
    by (simp add: plain_prefilter_def applied_def clip8_def)
  from prefilter_fallback [where prefilter = plain_prefilter and clip = clip8 and kw = "[]"
      and host = sym_host and radius = 16
      and thr = "One 30" and grains = "One 0" and lthr = "VList [VInt 76, VInt 0]"
      and elast = "5 / 2" and bright_thr = None and debander = "DebanderType ''F3kdb''"
      and l = "[]", OF f n a x r, THEN conjunct1]
  have "\<exists>rest.
      snd (pfdeband sym_host plain_prefilter clip8 16 (One 30) (One 0) (VList [VInt 76, VInt 0])
             (5 / 2) None (DebanderType ''F3kdb'') [] [])
        = [] @ Prefilter clip8 [(''planes'', VInt 0)] # Prefilter clip8 [] #
               MakeDiff clip8 (clip8\<lparr>node := Filter ''plain_prefilter'' [Source 0]\<rparr>) # rest \<and>
      filter is_Prefilter rest = []"
    by (elim exE conjE) (rule exI, rule conjI, assumption, assumption)
  with f n a x r show ?thesis by simp
qed

text \<open>
  The claim as stated ("any exception") fails for an exception that does not derive from
  \<^verbatim>\<open>Exception\<close>: a prefilter interrupted by \<^verbatim>\<open>KeyboardInterrupt\<close> is not called
  again, the interrupt leaves \<^verbatim>\<open>pfdeband\<close> after the first call.
\<close>

theorem interrupt_is_not_retried:
  "pfdeband sym_host interrupted_prefilter clip8 16 (One 30) (One 0) (VList [VInt 76, VInt 0])
     (5 / 2) None (DebanderType ''F3kdb'') [] []
   = (Inl (Raise KeyboardInterrupt ''interrupted''), [Prefilter clip8 [(''planes'', VInt 0)]])"
  by (simp add: pfdeband_def check_variable_def ret_def bnd_def try_except_def Let_def
      call_prefilter_def interrupted_prefilter_def clip8_def)

text \<open>
  C10, as the code has it. For any prefilter, if the first call, with \<^verbatim>\<open>planes=0\<close>,
  raises any exception that is an instance of \<^verbatim>\<open>Exception\<close> (a \<^verbatim>\<open>TypeError\<close> for the
  keyword or anything else; also the \<^verbatim>\<open>TypeError\<close> Python raises at the call site when
  \<^verbatim>\<open>kwargs\<close> holds a second \<^verbatim>\<open>planes\<close>), the prefilter is called exactly once more,
  without \<^verbatim>\<open>planes\<close>, and an exception raised by this retry is the outcome of
  \<^verbatim>\<open>pfdeband\<close>, with no further call.
\<close>

theorem prefilter_retried_once:
  assumes fmt: "format clip = Some fmt"
    and first: "''planes'' \<in> set (map fst kw) \<or>
                (\<exists>e. prefilter clip ((''planes'', VInt 0) # kw) = Inl e \<and> is_Exception e)"
  shows "length (filter is_Prefilter
           (snd (pfdeband host prefilter clip radius thr grains lthr elast bright_thr debander
                   kw l)))
         = length (filter is_Prefilter l) + (if ''planes'' \<in> set (map fst kw) then 1 else 2)
       \<and> (\<forall>e2. prefilter clip kw = Inl e2 \<longrightarrow>
            pfdeband host prefilter clip radius thr grains lthr elast bright_thr debander kw l
              = (Inl e2,
                 (if ''planes'' \<in> set (map fst kw) then l
                  else l @ [Prefilter clip ((''planes'', VInt 0) # kw)]) @ [Prefilter clip kw]))"
proof -
  define l1 where "l1 = (if ''planes'' \<in> set (map fst kw) then l
                         else l @ [Prefilter clip ((''planes'', VInt 0) # kw)])"
  have "\<exists>e. call_prefilter prefilter clip (Some (VInt 0)) kw l = (Inl e, l1) \<and> is_Exception e"
  proof (cases "''planes'' \<in> set (map fst kw)")
    case True
    then have "call_prefilter prefilter clip (Some (VInt 0)) kw l
               = (Inl (Raise TypeError ''got multiple values for keyword argument planes''), l1)"
      by (simp add: call_prefilter_def raise_def l1_def)
    then show ?thesis
      by (intro exI [where x = "Raise TypeError ''got multiple values for keyword argument planes''"])
        simp
  next
    case False
    with first obtain e where "prefilter clip ((''planes'', VInt 0) # kw) = Inl e"
      and "is_Exception e" by blast
    with False show ?thesis by (simp add: call_prefilter_def l1_def)
  qed
  then obtain e where
    c: "call_prefilter prefilter clip (Some (VInt 0)) kw l = (Inl e, l1)" and x: "is_Exception e"
    by blast
  note eq = pfdeband_retry [OF fmt c x, of host radius thr grains lthr elast bright_thr debander]
  have n: "length (filter is_Prefilter l1)
           = length (filter is_Prefilter l) + (if ''planes'' \<in> set (map fst kw) then 0 else 1)"
    by (simp add: l1_def)
  have "length (filter is_Prefilter
           (snd (pfdeband host prefilter clip radius thr grains lthr elast bright_thr debander
                   kw l)))
         = length (filter is_Prefilter l1) + 1"
    by (simp add: eq pipeline_tail_no_prefilter split: sum.splits)
  with n have "length (filter is_Prefilter
           (snd (pfdeband host prefilter clip radius thr grains lthr elast bright_thr debander
                   kw l)))
         = length (filter is_Prefilter l) + (if ''planes'' \<in> set (map fst kw) then 1 else 2)"
    by simp
  moreover have "\<forall>e2. prefilter clip kw = Inl e2 \<longrightarrow>
            pfdeband host prefilter clip radius thr grains lthr elast bright_thr debander kw l
              = (Inl e2, l1 @ [Prefilter clip kw])"
    by (simp add: eq)
  ultimately show ?thesis unfolding l1_def by blast
qed

theorem prefilter_retried_once_witness:
  "format clip8 = Some (yuv420 8 INTEGER) \<and>
   plain_prefilter clip8 [(''planes'', VInt 0)]
     = Inl (Raise TypeError ''unexpected keyword argument planes'') \<and>
   is_Exception (Raise TypeError ''unexpected keyword argument planes'') \<and>
   length (filter is_Prefilter
     (snd (pfdeband sym_host plain_prefilter clip8 16 (One 30) (One 0) (VList [VInt 76, VInt 0])
             (5 / 2) None (DebanderType ''F3kdb'') [] []))) = 2"
proof -
  have f: "format clip8 = Some (yuv420 8 INTEGER)" by (simp add: clip8_def)
  have a: "plain_prefilter clip8 ((''planes'', VInt 0) # [])
     = Inl (Raise TypeError ''unexpected keyword argument planes'')"
    by (simp add: plain_prefilter_def)
  have x: "is_Exception (Raise TypeError ''unexpected keyword argument planes'')" by simp
  have h: "''planes'' \<in> set (map fst ([] :: kwargs)) \<or>
           (\<exists>e. plain_prefilter clip8 ((''planes'', VInt 0) # []) = Inl e \<and> is_Exception e)"
    using a x by blast
  from prefilter_retried_once [where prefilter = plain_prefilter and clip = clip8 and kw = "[]"
      and host = sym_host and radius = 16
      and thr = "One 30" and grains = "One 0" and lthr = "VList [VInt 76, VInt 0]"
      and elast = "5 / 2" and bright_thr = None and debander = "DebanderType ''F3kdb''"
      and l = "[]", OF f h, THEN conjunct1]
  have "length (filter is_Prefilter
     (snd (pfdeband sym_host plain_prefilter clip8 16 (One 30) (One 0) (VList [VInt 76, VInt 0])
             (5 / 2) None (DebanderType ''F3kdb'') [] []))) = 2"
    by simp
  with f a x show ?thesis by simp
qed

section \<open>The guided pipeline\<close>












section \<open>The downscaled pipeline\<close>

lemma vs_lfdeband_calls:
  assumes fmt: "format clip = Some fmt" and sc: "scale \<noteq> 0"
    and d: "host (Depth clip 16) = Inr c16"
    and s: "host (ScalerScale scaler c16
              (py_round (of_int (width clip) / of_int scale)
                 - py_round (of_int (width clip) / of_int scale) mod 2 ^ subsampling_w fmt)
              (py_round (of_int (height clip) / of_int scale)
                 - py_round (of_int (height clip) / of_int scale) mod 2 ^ subsampling_h fmt))
            = Inr dsc"
  shows "\<exists>rest.
           snd (vs_lfdeband host clip radius thr grains scale scaler upscaler debander l)
             = l @ [Depth clip 16,
                    ScalerScale scaler c16
                      (py_round (of_int (width clip) / of_int scale)
                         - py_round (of_int (width clip) / of_int scale) mod 2 ^ subsampling_w fmt)
                      (py_round (of_int (height clip) / of_int scale)
                         - py_round (of_int (height clip) / of_int scale) mod 2 ^ subsampling_h fmt),
                    DebanderDeband (ensure_debander debander) (FuncArg ''blur'') radius thr grains]
                   @ rest \<and>
           deband_inputs rest = []"
  using sc
  by (simp add: vs_lfdeband_def check_variable_def expect_bits_def fmt d s ret_def bnd_def
      invoke_def Let_def deband_inputs_def split: sum.splits)

lemma keeps_size_sym_host: "keeps_size sym_host"
  by (auto simp: keeps_size_def size_of_def applied_def set_bits_def split: if_splits)

text \<open>
  The \<^verbatim>\<open>lfdeband\<close> of \<^verbatim>\<open>debandshit/debanders.py\<close>: the debander runs on the downscaled
  clip, the difference to the downscaled clip is resized to the input's width and height
  and merged onto the converted input; the returned clip has the input's size.
\<close>

lemma lfdeband_flow:
  assumes host: "keeps_size host" and fmt: "format clip = Some fmt"
    and run: "lfdeband host split clip radius threshold grain kw l = (Inr out, l')"
  shows "size_of out = size_of clip \<and>
         (\<exists>c16 dw dh dsc db d3kdb ddif dif merged.
            host (ResizeSpline64 c16 dw dh) = Inr dsc \<and>
            host (F3kdbDeband db dsc) = Inr d3kdb \<and>
            host (MakeDiff d3kdb dsc) = Inr ddif \<and>
            host (ResizeSpline64 ddif (width clip) (height clip)) = Inr dif \<and>
            host (MergeDiff c16 dif) = Inr merged \<and>
            l' = l @ [Depth clip 16, ResizeSpline64 c16 dw dh, F3kdbDeband db dsc,
                      MakeDiff d3kdb dsc, ResizeSpline64 ddif (width clip) (height clip),
                      MergeDiff c16 dif, Depth merged (bits_per_sample fmt)])"
proof -
  from lfdeband_success [OF fmt run] obtain c16 dw dh dsc db d3kdb ddif dif merged where
    c16: "host (Depth clip 16) = Inr c16"
    and r: "host (ResizeSpline64 c16 dw dh) = Inr dsc"
      "host (F3kdbDeband db dsc) = Inr d3kdb"
      "host (MakeDiff d3kdb dsc) = Inr ddif"
      "host (ResizeSpline64 ddif (width clip) (height clip)) = Inr dif"
    and m: "host (MergeDiff c16 dif) = Inr merged"
    and out: "host (Depth merged (bits_per_sample fmt)) = Inr out"
    and l': "l' = l @ [Depth clip 16, ResizeSpline64 c16 dw dh, F3kdbDeband db dsc,
                     MakeDiff d3kdb dsc, ResizeSpline64 ddif (width clip) (height clip),
                     MergeDiff c16 dif, Depth merged (bits_per_sample fmt)]"
    by blast
  from host c16 have "size_of c16 = size_of clip" by (auto simp: keeps_size_def)
  moreover from host m have "size_of merged = size_of c16" by (auto simp: keeps_size_def)
  moreover from host out have "size_of out = size_of merged" by (auto simp: keeps_size_def)
  ultimately have "size_of out = size_of clip" by simp
  with r m l' show ?thesis by blast
qed

text \<open>
  C2, evaluated on the code of \<^verbatim>\<open>vsdeband/funcs.py\<close>. Once the clip is converted and
  downscaled, the one debanding call of \<^verbatim>\<open>lfdeband\<close> is made on the function \<^verbatim>\<open>blur\<close>,
  not on the downscaled clip. (\<open>lfdeband_flow\<close> above: the \<^verbatim>\<open>lfdeband\<close> of
  \<^verbatim>\<open>debandshit/debanders.py\<close> debands the downscaled clip, upscales the difference to
  the input's width and height and returns a clip of the input's size.)
\<close>

theorem vs_lfdeband_debands_blur:
  assumes fmt: "format clip = Some fmt" and sc: "scale \<noteq> 0"
    and d: "host (Depth clip 16) = Inr c16"
    and s: "host (ScalerScale scaler c16
              (py_round (of_int (width clip) / of_int scale)
                 - py_round (of_int (width clip) / of_int scale) mod 2 ^ subsampling_w fmt)
              (py_round (of_int (height clip) / of_int scale)
                 - py_round (of_int (height clip) / of_int scale) mod 2 ^ subsampling_h fmt))
            = Inr dsc"
  shows "\<exists>rest.
           snd (vs_lfdeband host clip radius thr grains scale scaler upscaler debander l)
             = l @ [Depth clip 16,
                    ScalerScale scaler c16
                      (py_round (of_int (width clip) / of_int scale)
                         - py_round (of_int (width clip) / of_int scale) mod 2 ^ subsampling_w fmt)
                      (py_round (of_int (height clip) / of_int scale)
                         - py_round (of_int (height clip) / of_int scale) mod 2 ^ subsampling_h fmt),
                    DebanderDeband (ensure_debander debander) (FuncArg ''blur'') radius thr grains]
                   @ rest \<and>
           deband_inputs rest = []"
  by (rule vs_lfdeband_calls [OF fmt sc d s])

theorem vs_lfdeband_debands_blur_witness:
  "format clip8 = Some (yuv420 8 INTEGER) \<and> (2::int) \<noteq> 0 \<and>
   (\<exists>c16 dsc rest.
      sym_host (Depth clip8 16) = Inr c16 \<and>
      sym_host (ScalerScale ''Spline64'' c16 960 540) = Inr dsc \<and>
      snd (vs_lfdeband sym_host clip8 30 (One 80) (One 0) 2 ''Spline64'' None
             (DebanderType ''F3kdb'') [])
        = [] @ [Depth clip8 16, ScalerScale ''Spline64'' c16 960 540,
                DebanderDeband \<lparr>db_class = ''F3kdb'', db_config = []\<rparr> (FuncArg ''blur'') 30
                  (One 80) (One 0)] @ rest \<and>
      deband_inputs rest = [])"
proof -
  have f: "format clip8 = Some (yuv420 8 INTEGER)" by (simp add: clip8_def)
  have sc: "(2::int) \<noteq> 0" by simp
  obtain c16 where d: "sym_host (Depth clip8 16) = Inr c16"
    by (simp add: clip8_def applied_def)
  have w: "py_round (of_int (width clip8) / of_int 2)
             - py_round (of_int (width clip8) / of_int 2) mod 2 ^ subsampling_w (yuv420 8 INTEGER)
           = 960"
    by (simp add: clip8_def yuv420_def py_round_def)
  have h: "py_round (of_int (height clip8) / of_int 2)
             - py_round (of_int (height clip8) / of_int 2) mod 2 ^ subsampling_h (yuv420 8 INTEGER)
           = 540"
    by (simp add: clip8_def yuv420_def py_round_def)
  obtain dsc where s: "sym_host (ScalerScale ''Spline64'' c16 960 540) = Inr dsc"
    by (simp add: applied_def)
  from vs_lfdeband_debands_blur [where host = sym_host and clip = clip8 and scale = 2
      and scaler = "''Spline64''" and ?c16.0 = c16 and dsc = dsc and radius = 30
      and thr = "One 80" and grains = "One 0" and upscaler = None
      and debander = "DebanderType ''F3kdb''" and l = "[]", OF f sc d, unfolded w h, OF s]
  have "\<exists>rest.
      snd (vs_lfdeband sym_host clip8 30 (One 80) (One 0) 2 ''Spline64'' None
             (DebanderType ''F3kdb'') [])
        = [] @ [Depth clip8 16, ScalerScale ''Spline64'' c16 960 540,
                DebanderDeband \<lparr>db_class = ''F3kdb'', db_config = []\<rparr> (FuncArg ''blur'') 30
                  (One 80) (One 0)] @ rest \<and>
      deband_inputs rest = []"
    by simp
  with f sc d s show ?thesis by blast
qed

end
